theory Spec2Isabelle
  imports Complex_Main "HOL-Library.Sublist"
begin

section \<open>Python strings and lists\<close>

text \<open>
  Strings are lists of characters; a character outside ASCII is written as its UTF-8
  bytes. \<open>str.lower\<close> belongs to the language, not to the repository: every function
  below that lowercases a string takes the lowercasing function as its first argument
  \<open>lower\<close>, and the theorems hold whatever it is. The fixed strings the controllers compare
  against are ASCII, and on ASCII text \<open>str.lower\<close> is \<open>ascii_lower\<close>, which the sample runs
  pass for it.
\<close>

datatype py_error = IndexError

definition char_lower :: "char \<Rightarrow> char" where
  "char_lower c =
     (let n = (of_char c :: nat) in if 65 \<le> n \<and> n \<le> 90 then char_of (n + 32) else c)"

definition ascii_lower :: "string \<Rightarrow> string" where
  "ascii_lower s = map char_lower s"

text \<open>\<open>needle in hay\<close> on strings: a contiguous occurrence.\<close>

definition py_in :: "string \<Rightarrow> string \<Rightarrow> bool" where
  "py_in needle hay = sublist needle hay"

definition startswith :: "string \<Rightarrow> string \<Rightarrow> bool" where
  "startswith s p = prefix p s"

text \<open>
  \<open>s.split(sep)\<close> and \<open>s.replace(old, new)\<close> scan from the left and resume after each
  occurrence. Every separator and pattern in the source is a non-empty literal; Python
  raises on an empty separator, a case the model leaves as the one-element list, and it
  puts the replacement before every character and at the end for an empty pattern.
\<close>

function py_split :: "string \<Rightarrow> string \<Rightarrow> string list" where
  "py_split s sep =
     (if sep = [] then [s]
      else if s = [] then [[]]
      else if prefix sep s then [] # py_split (drop (length sep) s) sep
      else (case py_split (tl s) sep of
              [] \<Rightarrow> [[hd s]]
            | p # ps \<Rightarrow> (hd s # p) # ps))"
  by pat_completeness auto
termination
  by (relation "measure (\<lambda>(s, sep). length s)") auto

function py_replace :: "string \<Rightarrow> string \<Rightarrow> string \<Rightarrow> string" where
  "py_replace s old new =
     (if old = [] then new @ concat (map (\<lambda>c. c # new) s)
      else if s = [] then []
      else if prefix old s then new @ py_replace (drop (length old) s) old new
      else hd s # py_replace (tl s) old new)"
  by pat_completeness auto
termination
  by (relation "measure (\<lambda>(s, old, new). length s)") auto

text \<open>
  \<open>str.strip()\<close> removes the characters for which \<open>str.isspace\<close> holds from both ends: U+0009
  to U+000D, U+001C to U+0020, U+0085, U+00A0, U+1680, U+2000 to U+200A, U+2028, U+2029,
  U+202F, U+205F and U+3000, here as their UTF-8 bytes.
\<close>

definition whitespace :: "string list" where
  "whitespace =
     map (\<lambda>n. [char_of n]) [9, 10, 11, 12, 13, 28, 29, 30, 31, 32 :: nat]
     @ [[CHR 0xC2, CHR 0x85], [CHR 0xC2, CHR 0xA0], [CHR 0xE1, CHR 0x9A, CHR 0x80]]
     @ map (\<lambda>n. [CHR 0xE2, CHR 0x80, char_of n]) [128 ..< 139 :: nat]
     @ [[CHR 0xE2, CHR 0x80, CHR 0xA8], [CHR 0xE2, CHR 0x80, CHR 0xA9],
        [CHR 0xE2, CHR 0x80, CHR 0xAF], [CHR 0xE2, CHR 0x81, CHR 0x9F],
        [CHR 0xE3, CHR 0x80, CHR 0x80]]"

function strip_start :: "string list \<Rightarrow> string \<Rightarrow> string" where
  "strip_start ws s =
     (case find (\<lambda>w. w \<noteq> [] \<and> prefix w s) ws of
        None \<Rightarrow> s
      | Some w \<Rightarrow> strip_start ws (drop (length w) s))"
  by pat_completeness auto
termination
  by (relation "measure (\<lambda>(ws, s). length s)") (auto simp: find_Some_iff prefix_def)

definition py_strip :: "string \<Rightarrow> string" where
  "py_strip s = rev (strip_start (map rev whitespace) (rev (strip_start whitespace s)))"

text \<open>Subscription \<open>xs[i]\<close>, with the positions before the first one reached from the end.\<close>

definition py_index :: "'a list \<Rightarrow> int \<Rightarrow> py_error + 'a" where
  "py_index xs i =
     (if 0 \<le> i \<and> i < int (length xs) then Inr (xs ! nat i)
      else if i < 0 \<and> - int (length xs) \<le> i then Inr (xs ! nat (int (length xs) + i))
      else Inl IndexError)"

text \<open>\<open>xs[:k]\<close>: a negative bound drops that many elements from the end.\<close>

definition py_slice_to :: "'a list \<Rightarrow> int \<Rightarrow> 'a list" where
  "py_slice_to xs k =
     (if 0 \<le> k then take (nat k) xs else take (length xs - nat (- k)) xs)"


section \<open>The chatbot flow engine (controller/chatbot/chatbotEngine.py)\<close>

datatype ChatbotFlowType =
  PROPERTY_SEARCH | RENT_INQUIRY | SCHEDULE_VISIT | GENERAL_SUPPORT | BUG_REPORT | FEEDBACK

fun flow_value :: "ChatbotFlowType \<Rightarrow> string" where
  "flow_value PROPERTY_SEARCH = ''property_search''"
| "flow_value RENT_INQUIRY = ''rent_inquiry''"
| "flow_value SCHEDULE_VISIT = ''schedule_visit''"
| "flow_value GENERAL_SUPPORT = ''general_support''"
| "flow_value BUG_REPORT = ''bug_report''"
| "flow_value FEEDBACK = ''feedback''"

text \<open>An entry of a flow: the keys \<open>options\<close>, \<open>next_flow\<close> and \<open>is_final\<close> are optional.\<close>

record flow_question =
  fq_question :: string
  fq_options :: "string list option"
  fq_input_type :: string
  fq_next_flow :: "(string \<times> string) list option"
  fq_is_final :: "bool option"

definition mk_question :: "string \<Rightarrow> string list option \<Rightarrow> string \<Rightarrow> flow_question" where
  "mk_question q opts ty =
     \<lparr>fq_question = q, fq_options = opts, fq_input_type = ty,
      fq_next_flow = None, fq_is_final = None\<rparr>"

text \<open>The rupee sign U+20B9 in UTF-8.\<close>

definition rupee :: string where
  "rupee = [CHR 0xE2, CHR 0x82, CHR 0xB9]"

definition initial_flow :: "flow_question list" where
  "initial_flow =
     [\<lparr>fq_question = ''Hi! I'm your property assistant. How can I help you today?'',
       fq_options = Some [''Find a property to rent'', ''Ask about a specific property'',
                          ''Schedule a property visit'', ''Report an issue'', ''Give feedback''],
       fq_input_type = ''choice'',
       fq_next_flow = Some [(''Find a property to rent'', ''property_search''),
                            (''Ask about a specific property'', ''rent_inquiry''),
                            (''Schedule a property visit'', ''schedule_visit''),
                            (''Report an issue'', ''bug_report''),
                            (''Give feedback'', ''feedback'')],
       fq_is_final = None\<rparr>]"

definition property_search_flow :: "flow_question list" where
  "property_search_flow =
     [mk_question ''What type of property are you looking for?''
        (Some [''Apartment'', ''House'', ''Studio'', ''Villa'', ''Any'']) ''choice'',
      mk_question ''Which city are you interested in?'' None ''text'',
      mk_question ''What's your budget range per month?''
        (Some [''Under '' @ rupee @ ''10,000'',
               rupee @ ''10,000-'' @ rupee @ ''25,000'',
               rupee @ ''25,000-'' @ rupee @ ''50,000'',
               rupee @ ''50,000-'' @ rupee @ ''1,00,000'',
               ''Above '' @ rupee @ ''1,00,000'']) ''choice'',
      mk_question ''How many bedrooms do you need?''
        (Some [''Studio/0'', ''1 BHK'', ''2 BHK'', ''3 BHK'', ''4+ BHK'']) ''choice'',
      mk_question ''Do you have pets?'' (Some [''Yes'', ''No'']) ''choice'',
      mk_question ''When do you want to move in?''
        (Some [''Immediately'', ''Within 1 month'', ''1-3 months'', ''3+ months'']) ''choice'',
      mk_question ''Any specific amenities you need?''
        (Some [''Parking'', ''Gym'', ''Swimming Pool'', ''Security'', ''None specific''])
        ''choice'',
      (mk_question
         ''Please provide your email address so our team can contact you with suitable property options:''
         None ''email'')\<lparr>fq_is_final := Some False\<rparr>]"

definition rent_inquiry_flow :: "flow_question list" where
  "rent_inquiry_flow =
     [mk_question ''Do you have a specific property in mind?'' (Some [''Yes'', ''No'']) ''choice'']"

definition schedule_visit_flow :: "flow_question list" where
  "schedule_visit_flow =
     [mk_question ''Which property would you like to visit?'' None ''text'']"

definition bug_report_flow :: "flow_question list" where
  "bug_report_flow =
     [mk_question ''What type of issue would you like to report?''
        (Some [''Website bug'', ''Property not found error'', ''Search not working'',
               ''Other technical issue'']) ''choice'']"

definition feedback_flow :: "flow_question list" where
  "feedback_flow =
     [mk_question ''What aspect would you like to give feedback about?''
        (Some [''Property search experience'', ''Website usability'',
               ''Property listings quality'', ''Customer support'',
               ''Property visit experience'', ''Overall service'']) ''choice'']"

definition FLOWS :: "(string \<times> flow_question list) list" where
  "FLOWS =
     [(''initial'', initial_flow),
      (''property_search'', property_search_flow),
      (''rent_inquiry'', rent_inquiry_flow),
      (''schedule_visit'', schedule_visit_flow),
      (''bug_report'', bug_report_flow),
      (''feedback'', feedback_flow)]"

record question_data =
  question :: string
  options :: "string list option"
  input_type :: string
  step_number :: int
  is_final :: bool

definition get_initial_question :: question_data where
  "get_initial_question =
     (let initial_question = hd initial_flow
      in \<lparr>question = fq_question initial_question,
          options = fq_options initial_question,
          input_type = fq_input_type initial_question,
          step_number = 0,
          is_final = False\<rparr>)"

text \<open>
  \<open>get_next_question\<close>: \<open>Inr None\<close> is the returned \<open>None\<close>, \<open>Inl IndexError\<close> the exception
  that \<open>flow[step]\<close> raises for a step below \<open>-len(flow)\<close>.
\<close>

definition get_next_question :: "string \<Rightarrow> int \<Rightarrow> py_error + question_data option" where
  "get_next_question flow_name step =
     (case map_of FLOWS flow_name of
        None \<Rightarrow> Inr None
      | Some flow \<Rightarrow>
          if int (length flow) \<le> step then Inr None
          else (case py_index flow step of
                  Inl e \<Rightarrow> Inl e
                | Inr q \<Rightarrow>
                    Inr (Some \<lparr>question = fq_question q,
                               options = fq_options q,
                               input_type = fq_input_type q,
                               step_number = step + 1,
                               is_final = (case fq_is_final q of
                                             Some b \<Rightarrow> b
                                           | None \<Rightarrow> step = int (length flow) - 1)\<rparr>)))"

definition flow_mapping :: "(string \<times> ChatbotFlowType) list" where
  "flow_mapping =
     [(''find a property to rent'', PROPERTY_SEARCH),
      (''ask about a specific property'', RENT_INQUIRY),
      (''schedule a property visit'', SCHEDULE_VISIT),
      (''report an issue'', BUG_REPORT),
      (''give feedback'', FEEDBACK)]"

definition determine_flow_from_response :: "(string \<Rightarrow> string) \<Rightarrow> string \<Rightarrow> ChatbotFlowType" where
  "determine_flow_from_response lower response =
     (let response_lower = lower response
      in case map_of flow_mapping response_lower of
           Some f \<Rightarrow> f
         | None \<Rightarrow> BUG_REPORT)"


section \<open>Conversations and messages (model/chatbotModel.py)\<close>

datatype ConversationStatus = ACTIVE | COMPLETED | ESCALATED | ABANDONED

text \<open>
  A point in time is a number of microseconds. The columns that no modelled handler reads
  or writes (\<open>id\<close>, \<open>user\<close>, \<open>user_ip\<close>, \<open>user_agent\<close>, the conversation's \<open>created_at\<close> and
  \<open>updated_at\<close>) are left out. \<open>session_id\<close> is unique, so it stands for the row's key, and a
  message refers to its conversation by it.
\<close>

type_synonym datetime = int

record ChatbotConversation =
  session_id :: string
  flow_type :: "ChatbotFlowType option"
  guest_email :: "string option"
  guest_name :: "string option"
  current_step :: int
  status :: ConversationStatus
  is_satisfied :: "bool option"
  completed_at :: "datetime option"

record ChatbotMessage =
  conversation :: string
  msg_step_number :: int
  question_text :: string
  user_response :: "string option"
  response_time_seconds :: "int option"
  created_at :: "datetime option"
  responded_at :: "datetime option"

record database =
  conversations :: "string \<rightharpoonup> ChatbotConversation"
  messages :: "ChatbotMessage list"

text \<open>Truthiness of an optional string: \<open>None\<close> and the empty string are falsy.\<close>

definition truthy :: "string option \<Rightarrow> bool" where
  "truthy v = (case v of None \<Rightarrow> False | Some s \<Rightarrow> s \<noteq> [])"

definition or_empty :: "string option \<Rightarrow> string" where
  "or_empty v = (if truthy v then the v else [])"

definition get_or_none :: "database \<Rightarrow> string \<Rightarrow> ChatbotConversation option" where
  "get_or_none d sid = conversations d sid"

definition save_conversation :: "ChatbotConversation \<Rightarrow> database \<Rightarrow> database" where
  "save_conversation c d = d\<lparr>conversations := (conversations d)(session_id c \<mapsto> c)\<rparr>"

definition create_message :: "string \<Rightarrow> int \<Rightarrow> string \<Rightarrow> datetime \<Rightarrow> database \<Rightarrow> database" where
  "create_message sid step text now d =
     d\<lparr>messages := messages d @
          [\<lparr>conversation = sid, msg_step_number = step, question_text = text,
            user_response = None, response_time_seconds = None,
            created_at = Some now, responded_at = None\<rparr>]\<rparr>"

text \<open>
  \<open>ChatbotMessage.filter(conversation=c).order_by('-step_number').first()\<close>: the position
  in the table of the conversation's message with the greatest step number (the earliest
  row among equal step numbers; the database leaves that order open).
\<close>

definition last_message :: "database \<Rightarrow> string \<Rightarrow> nat option" where
  "last_message d sid =
     (let rows = filter (\<lambda>i. conversation (messages d ! i) = sid) [0..<length (messages d)]
      in case rows of
           [] \<Rightarrow> None
         | i # rest \<Rightarrow>
             Some (fold (\<lambda>j best. if msg_step_number (messages d ! best)
                                        < msg_step_number (messages d ! j)
                                     then j else best) rest i))"

definition save_message :: "nat \<Rightarrow> ChatbotMessage \<Rightarrow> database \<Rightarrow> database" where
  "save_message i m d = d\<lparr>messages := (messages d)[i := m]\<rparr>"

text \<open>\<open>int(x)\<close> on a number of seconds given in microseconds: truncation towards zero.\<close>

definition whole_seconds :: "int \<Rightarrow> int" where
  "whole_seconds us = (if 0 \<le> us then us div 1000000 else - ((- us) div 1000000))"


section \<open>Replies\<close>

text \<open>
  An \<open>HTTPException\<close> carries its status code and detail. Of a JSON reply the model keeps
  the \<open>message\<close> and, of its \<open>data\<close>, the question (or completion text), the options, the
  step number, the input type, \<open>is_final\<close> and the flow type. Writes to the database are
  taken to succeed, and all clock readings made while one request is served are one value.
\<close>

datatype http_error = HTTPException nat string

record reply =
  r_message :: string
  r_question :: string
  r_options :: "string list option"
  r_step_number :: int
  r_input_type :: string
  r_is_final :: bool
  r_flow_type :: "ChatbotFlowType option"

type_synonym result = "(http_error + reply) \<times> database"

definition satisfaction_options :: "string list" where
  "satisfaction_options = [''Yes, I'm satisfied'', ''No, I need more help'']"

text \<open>ConversationController.handle_satisfaction_question\<close>

definition handle_satisfaction_question ::
  "ChatbotConversation \<Rightarrow> datetime \<Rightarrow> database \<Rightarrow> result" where
  "handle_satisfaction_question c now d =
     (let satisfaction_step = current_step c + 1;
          satisfaction_question = ''Are you satisfied with the assistance provided?'';
          d1 = create_message (session_id c) satisfaction_step satisfaction_question now d;
          c1 = c\<lparr>current_step := satisfaction_step\<rparr>;
          d2 = save_conversation c1 d1
      in (Inr \<lparr>r_message = ''Satisfaction question presented'',
                r_question = satisfaction_question,
                r_options = Some satisfaction_options,
                r_step_number = satisfaction_step,
                r_input_type = ''choice'',
                r_is_final = True,
                r_flow_type = flow_type c1\<rparr>, d2))"

text \<open>
  The flow engine is asked with \<open>conversation.flow_type\<close>, which may be \<open>None\<close>; \<open>None\<close> is no
  key of \<open>FLOWS\<close>.
\<close>

definition next_question_for ::
  "ChatbotFlowType option \<Rightarrow> int \<Rightarrow> py_error + question_data option" where
  "next_question_for ft step =
     (case ft of None \<Rightarrow> Inr None | Some f \<Rightarrow> get_next_question (flow_value f) step)"

definition question_reply ::
  "string \<Rightarrow> question_data \<Rightarrow> int \<Rightarrow> ChatbotFlowType option \<Rightarrow> reply" where
  "question_reply msg q step ft =
     \<lparr>r_message = msg, r_question = question q, r_options = options q,
      r_step_number = step, r_input_type = input_type q, r_is_final = is_final q,
      r_flow_type = ft\<rparr>"


section \<open>The property search flow (controller/chatbot/propertySearchController.py)\<close>

text \<open>
  \<open>_show_completion_message\<close>: the summary of the answers and the mail to the admin leave
  the database alone and are not part of the model; the message row is created (its extra
  keyword \<open>is_bot_message\<close> names no column) and the conversation is completed.
\<close>

definition show_completion_message ::
  "ChatbotConversation \<Rightarrow> datetime \<Rightarrow> database \<Rightarrow> result" where
  "show_completion_message c now d =
     (let completion_step = current_step c + 1;
          completion_text = ''Thank you for providing your property preferences and email! We have recorded your requirements and our team will contact you shortly with suitable property options.'';
          d1 = create_message (session_id c) completion_step completion_text now d;
          c1 = c\<lparr>status := COMPLETED, current_step := completion_step\<rparr>;
          d2 = save_conversation c1 d1
      in (Inr \<lparr>r_message = ''Property search completed'',
                r_question = completion_text,
                r_options = None,
                r_step_number = completion_step,
                r_input_type = [],
                r_is_final = True,
                r_flow_type = flow_type c1\<rparr>, d2))"

text \<open>
  The test of line 46: the engine's question is final, the response is non-empty and the
  lowercased text of the question just answered equals the literal below.
\<close>

definition email_question_literal :: string where
  "email_question_literal =
     ''please provide your email address so our team can contact you with suitable property options''"

definition email_question_answered :: "question_data \<Rightarrow> string \<Rightarrow> string \<Rightarrow> bool" where
  "email_question_answered next_question_data resp current_question =
     (is_final next_question_data \<and> resp \<noteq> []
      \<and> current_question = email_question_literal)"

definition property_search_handle_response ::
  "(string \<Rightarrow> string) \<Rightarrow> ChatbotConversation \<Rightarrow> nat \<Rightarrow> string \<Rightarrow> datetime \<Rightarrow> database \<Rightarrow> result" where
  "property_search_handle_response lower c i resp now d =
     (let current_message = (messages d ! i)\<lparr>user_response := Some resp,
                                             responded_at := Some now\<rparr>;
          d1 = save_message i current_message d;
          current_question = lower (question_text current_message);
          question_step = current_step c
      in case next_question_for (flow_type c) question_step of
           Inl e \<Rightarrow> handle_satisfaction_question c now d1
         | Inr None \<Rightarrow> show_completion_message c now d1
         | Inr (Some next_question_data) \<Rightarrow>
             if email_question_answered next_question_data resp current_question
             then show_completion_message c now d1
             else (let next_step_number = current_step c + 1;
                       d2 = create_message (session_id c) next_step_number
                              (question next_question_data) now d1;
                       c1 = c\<lparr>current_step := current_step c + 1\<rparr>;
                       d3 = save_conversation c1 d2
                   in (Inr (question_reply ''Next property search question''
                              next_question_data next_step_number (flow_type c1)), d3)))"


section \<open>The feedback flow (controller/chatbot/chatbotFeedbackController.py)\<close>

text \<open>The star U+2B50 and the glowing star U+1F31F in UTF-8.\<close>

definition star :: string where
  "star = [CHR 0xE2, CHR 0xAD, CHR 0x90]"

definition glowing_star :: string where
  "glowing_star = [CHR 0xF0, CHR 0x9F, CHR 0x8C, CHR 0x9F]"

definition stars :: "nat \<Rightarrow> string" where
  "stars n = concat (replicate n star)"

text \<open>
  Each handler below asks the next question the same way: a message row for the next step,
  the conversation moved to that step and saved (with whatever the handler stored in
  \<open>guest_email\<close> before), and a reply that is not final.
\<close>

definition ask ::
  "ChatbotConversation \<Rightarrow> string \<Rightarrow> string \<Rightarrow> string list option \<Rightarrow> string \<Rightarrow>
   datetime \<Rightarrow> database \<Rightarrow> result" where
  "ask c msg text opts ty now d =
     (let next_step = current_step c + 1;
          d1 = create_message (session_id c) next_step text now d;
          c1 = c\<lparr>current_step := next_step\<rparr>;
          d2 = save_conversation c1 d1
      in (Inr \<lparr>r_message = msg, r_question = text, r_options = opts,
                r_step_number = next_step, r_input_type = ty, r_is_final = False,
                r_flow_type = flow_type c1\<rparr>, d2))"

definition start_feedback_flow :: "ChatbotConversation \<Rightarrow> datetime \<Rightarrow> database \<Rightarrow> result" where
  "start_feedback_flow c now d =
     ask c ''Starting feedback flow'' ''What area would you like to give feedback about?''
       (Some [''Property search experience'', ''Website usability'',
              ''Property listings quality'', ''Customer support'',
              ''Property visit experience'', ''Overall service''])
       ''choice'' now d"

definition handle_feedback_category_selection ::
  "(string \<Rightarrow> string) \<Rightarrow> ChatbotConversation \<Rightarrow> string \<Rightarrow> datetime \<Rightarrow> database \<Rightarrow> result" where
  "handle_feedback_category_selection lower c resp now d =
     (let c1 = c\<lparr>guest_email := Some (''CATEGORY:'' @ resp)\<rparr>;
          rating_question = ''Please rate your experience with '' @ lower resp @ '':''
      in ask c1 ''Feedback category selected, asking for rating'' rating_question
           (Some [stars 5 @ '' Excellent (5/5)'', stars 4 @ '' Good (4/5)'',
                  stars 3 @ '' Average (3/5)'', stars 2 @ '' Poor (2/5)'',
                  stars 1 @ '' Very Poor (1/5)''])
           ''choice'' now d)"

text \<open>The rating value read off a rating text, 3 when no mark is found.\<close>

definition rating_value_of :: "string \<Rightarrow> int" where
  "rating_value_of text =
     (if py_in ''(5/5)'' text then 5
      else if py_in ''(4/5)'' text then 4
      else if py_in ''(3/5)'' text then 3
      else if py_in ''(2/5)'' text then 2
      else if py_in ''(1/5)'' text then 1
      else 3)"

definition handle_rating_selection ::
  "(string \<Rightarrow> string) \<Rightarrow> ChatbotConversation \<Rightarrow> string \<Rightarrow> datetime \<Rightarrow> database \<Rightarrow> result" where
  "handle_rating_selection lower c resp now d =
     (let stored_data = or_empty (guest_email c);
          c1 = c\<lparr>guest_email := Some (stored_data @ ''|RATING:'' @ resp)\<rparr>;
          category = (if py_in ''CATEGORY:'' stored_data
                      then hd (py_split (py_replace stored_data ''CATEGORY:'' []) ''|'')
                      else []);
          rating_value = rating_value_of resp;
          details_question =
            (if 4 \<le> rating_value
             then ''Great! What specifically did you like about our '' @ lower category @ ''?''
             else ''What would you like us to improve about our '' @ lower category @ ''?'')
      in ask c1 ''Rating received, asking for detailed feedback'' details_question None
           ''text'' now d)"

definition ask_followup_preference ::
  "ChatbotConversation \<Rightarrow> datetime \<Rightarrow> database \<Rightarrow> result" where
  "ask_followup_preference c now d =
     ask c ''Asking about follow-up preference''
       ''Would you like us to follow up with you about your feedback?''
       (Some [''Yes, please contact me'', ''No, thank you'']) ''choice'' now d"

definition handle_detailed_feedback ::
  "ChatbotConversation \<Rightarrow> string \<Rightarrow> datetime \<Rightarrow> database \<Rightarrow> result" where
  "handle_detailed_feedback c resp now d =
     (let stored_data = or_empty (guest_email c);
          c1 = c\<lparr>guest_email := Some (stored_data @ ''|DETAILS:'' @ resp)\<rparr>;
          rating_value =
            (if py_in ''|RATING:'' stored_data
             then rating_value_of (hd (py_split (py_split stored_data ''|RATING:'' ! 1) ''|''))
             else 3)
      in if 4 \<le> rating_value
         then ask c1 ''Detailed feedback received, asking for suggestions''
                ''Any suggestions for improvement or new features you'd like to see?''
                None ''text'' now d
         else ask_followup_preference c1 now d)"

definition handle_improvement_suggestions ::
  "ChatbotConversation \<Rightarrow> string \<Rightarrow> datetime \<Rightarrow> database \<Rightarrow> result" where
  "handle_improvement_suggestions c resp now d =
     (let stored_data = or_empty (guest_email c);
          c1 = c\<lparr>guest_email := Some (stored_data @ ''|SUGGESTIONS:'' @ resp)\<rparr>
      in ask_followup_preference c1 now d)"

text \<open>
  The loop of \<open>_complete_feedback\<close> over \<open>stored_data.split("|")\<close>: each part that starts with
  a tag sets that field to the part with every occurrence of the tag removed.
\<close>

record feedback_fields =
  fb_category :: string
  fb_rating :: string
  fb_details :: string
  fb_suggestions :: string
  fb_followup :: string

definition parse_part :: "feedback_fields \<Rightarrow> string \<Rightarrow> feedback_fields" where
  "parse_part f part =
     (if startswith part ''CATEGORY:'' then f\<lparr>fb_category := py_replace part ''CATEGORY:'' []\<rparr>
      else if startswith part ''RATING:'' then f\<lparr>fb_rating := py_replace part ''RATING:'' []\<rparr>
      else if startswith part ''DETAILS:'' then f\<lparr>fb_details := py_replace part ''DETAILS:'' []\<rparr>
      else if startswith part ''SUGGESTIONS:''
        then f\<lparr>fb_suggestions := py_replace part ''SUGGESTIONS:'' []\<rparr>
      else if startswith part ''FOLLOWUP:'' then f\<lparr>fb_followup := py_replace part ''FOLLOWUP:'' []\<rparr>
      else f)"

definition parse_feedback :: "string \<Rightarrow> feedback_fields" where
  "parse_feedback stored_data =
     foldl parse_part
       \<lparr>fb_category = [], fb_rating = [], fb_details = [], fb_suggestions = [],
        fb_followup = []\<rparr>
       (py_split stored_data ''|'')"

definition complete_feedback ::
  "ChatbotConversation \<Rightarrow> string option \<Rightarrow> datetime \<Rightarrow> database \<Rightarrow> result" where
  "complete_feedback c user_email now d =
     (let stored_data = or_empty (guest_email c);
          f = parse_feedback stored_data;
          c1 = c\<lparr>status := COMPLETED, completed_at := Some now\<rparr>;
          c2 = (if truthy user_email then c1\<lparr>guest_name := user_email\<rparr> else c1);
          d1 = save_conversation c2 d;
          received = ''Thank you for your valuable feedback! '' @ glowing_star
                     @ '' We've received your ''
                     @ py_strip (hd (py_split (fb_rating f) ''(''))
                     @ '' rating for '' @ [CHR 0x27] @ fb_category f @ [CHR 0x27] @ ''. '';
          completion_message =
            (if truthy user_email
             then received @ ''We'll review your feedback and contact you at ''
                  @ the user_email @ '' if needed.''
             else received @ ''Your input helps us improve our platform!'')
      in (Inr \<lparr>r_message = ''Feedback submitted successfully'',
                r_question = completion_message,
                r_options = None,
                r_step_number = current_step c2 + 1,
                r_input_type = ''feedback_submitted'',
                r_is_final = True,
                r_flow_type = flow_type c2\<rparr>, d1))"

definition handle_followup_preference ::
  "(string \<Rightarrow> string) \<Rightarrow> ChatbotConversation \<Rightarrow> string \<Rightarrow> datetime \<Rightarrow> database \<Rightarrow> result" where
  "handle_followup_preference lower c resp now d =
     (let stored_data = or_empty (guest_email c);
          c1 = c\<lparr>guest_email := Some (stored_data @ ''|FOLLOWUP:'' @ resp)\<rparr>
      in if lower resp = ''yes, please contact me''
         then ask c1 ''Follow-up requested, asking for email''
                ''Please provide your email address so we can follow up with you:''
                None ''email'' now d
         else complete_feedback c1 None now d)"

definition handle_contact_info ::
  "ChatbotConversation \<Rightarrow> string \<Rightarrow> datetime \<Rightarrow> database \<Rightarrow> result" where
  "handle_contact_info c resp now d = complete_feedback c (Some resp) now d"

definition handle_default_flow ::
  "ChatbotConversation \<Rightarrow> string \<Rightarrow> datetime \<Rightarrow> database \<Rightarrow> result" where
  "handle_default_flow c resp now d = handle_satisfaction_question c now d"

text \<open>
  \<open>ChatbotFeedbackController.handle_response\<close>: the handler is chosen by the lowercased text
  of the question just answered, in this order.
\<close>

definition feedback_handle_response ::
  "(string \<Rightarrow> string) \<Rightarrow> ChatbotConversation \<Rightarrow> nat \<Rightarrow> string \<Rightarrow> datetime \<Rightarrow> database \<Rightarrow> result" where
  "feedback_handle_response lower c i resp now d =
     (let qtext = lower (question_text (messages d ! i))
      in if py_in ''hi! i'm your property assistant'' qtext \<or> current_step c = 0
           then start_feedback_flow c now d
         else if py_in ''what area would you like to give feedback about'' qtext
           then handle_feedback_category_selection lower c resp now d
         else if py_in ''please rate your experience'' qtext \<or> py_in ''how would you rate'' qtext
           then handle_rating_selection lower c resp now d
         else if py_in ''please share your detailed feedback'' qtext
                 \<or> py_in ''what specifically'' qtext
                 \<or> py_in ''what aspects'' qtext
                 \<or> py_in ''what did you like'' qtext
                 \<or> py_in ''how can we improve'' qtext
                 \<or> py_in ''what improvements would you like'' qtext
           then handle_detailed_feedback c resp now d
         else if py_in ''any suggestions for improvement'' qtext
                 \<or> (py_in ''suggestions'' qtext \<and> py_in ''improvement'' qtext)
           then handle_improvement_suggestions c resp now d
         else if py_in ''would you like us to follow up'' qtext
           then handle_followup_preference lower c resp now d
         else if py_in ''please provide your email'' qtext
           then handle_contact_info c resp now d
         else handle_default_flow c resp now d)"


section \<open>The main controller (controller/chatbot/mainChatbotController.py)\<close>

text \<open>
  The rent-inquiry, schedule-visit and bug-report controllers are parameters: whatever they
  do with the conversation, the message and the response they are handed.
\<close>

type_synonym handler =
  "ChatbotConversation \<Rightarrow> nat \<Rightarrow> string \<Rightarrow> datetime \<Rightarrow> database \<Rightarrow> result"

record controllers =
  rent_inquiry_handle_response :: handler
  schedule_visit_handle_response :: handler
  bug_report_handle_response :: handler

definition handle_standard_flow ::
  "ChatbotConversation \<Rightarrow> string \<Rightarrow> datetime \<Rightarrow> database \<Rightarrow> result" where
  "handle_standard_flow c resp now d =
     (let flow_question_index = current_step c
      in case next_question_for (flow_type c) flow_question_index of
           Inl e \<Rightarrow>
             (Inl (HTTPException 500
                     ''Failed to handle standard flow: list index out of range''), d)
         | Inr None \<Rightarrow> handle_satisfaction_question c now d
         | Inr (Some next_question_data) \<Rightarrow>
             (let next_step_number = current_step c + 1;
                  d1 = create_message (session_id c) next_step_number
                         (question next_question_data) now d;
                  c1 = c\<lparr>current_step := current_step c + 1\<rparr>;
                  d2 = save_conversation c1 d1
              in (Inr (question_reply ''Next question retrieved'' next_question_data
                         next_step_number (flow_type c1)), d2)))"

text \<open>
  \<open>is_first_response\<close> is the test of line 134, which guards the one place where the flow is
  assigned.
\<close>

definition is_first_response :: "ChatbotConversation \<Rightarrow> bool" where
  "is_first_response c = (current_step c = 0 \<and> flow_type c = None)"

definition route ::
  "(string \<Rightarrow> string) \<Rightarrow> controllers \<Rightarrow> ChatbotConversation \<Rightarrow> nat \<Rightarrow> string \<Rightarrow> datetime \<Rightarrow> database \<Rightarrow> result" where
  "route lower ctl c i resp now d =
     (if flow_type c = Some PROPERTY_SEARCH
        then property_search_handle_response lower c i resp now d
      else if flow_type c = Some RENT_INQUIRY then rent_inquiry_handle_response ctl c i resp now d
      else if flow_type c = Some SCHEDULE_VISIT
        then schedule_visit_handle_response ctl c i resp now d
      else if flow_type c = Some BUG_REPORT then bug_report_handle_response ctl c i resp now d
      else if flow_type c = Some FEEDBACK then feedback_handle_response lower c i resp now d
      else handle_standard_flow c resp now d)"

text \<open>
  Lines 95 to 138: the conversation is looked up and checked, the latest message takes the
  response, and a first response determines the flow. The result is the conversation as
  it goes on to the controllers, the position of the message that took the response
  (\<open>None\<close> when there is no message or the latest one is answered already) and the
  database.
\<close>

definition record_response ::
  "(string \<Rightarrow> string) \<Rightarrow> string \<Rightarrow> string \<Rightarrow> datetime \<Rightarrow> database
   \<Rightarrow> http_error + ChatbotConversation \<times> nat option \<times> database" where
  "record_response lower sid resp now d =
     (case get_or_none d sid of
        None \<Rightarrow> Inl (HTTPException 404 ''Conversation not found'')
      | Some c \<Rightarrow>
          if status c \<noteq> ACTIVE
          then Inl (HTTPException 400 ''Conversation is not active'')
          else (case last_message d sid of
                  None \<Rightarrow> Inr (c, None, d)
                | Some i \<Rightarrow>
                    if truthy (user_response (messages d ! i))
                    then Inr (c, None, d)
                    else
                      (let m1 = (messages d ! i)\<lparr>user_response := Some resp,
                                                  responded_at := Some now\<rparr>;
                           m2 = (case created_at m1 of
                                   None \<Rightarrow> m1
                                 | Some created \<Rightarrow>
                                     m1\<lparr>response_time_seconds :=
                                          Some (whole_seconds (now - created))\<rparr>);
                           d1 = save_message i m2 d
                       in if is_first_response c
                          then (let c1 = c\<lparr>flow_type :=
                                             Some (determine_flow_from_response lower resp)\<rparr>
                                in Inr (c1, Some i, save_conversation c1 d1))
                          else Inr (c, Some i, d1))))"

text \<open>Lines 140 to 156: the response goes to the controller of the flow.\<close>

definition handle_chat_response ::
  "(string \<Rightarrow> string) \<Rightarrow> controllers \<Rightarrow> string \<Rightarrow> string \<Rightarrow> datetime \<Rightarrow> database \<Rightarrow> result" where
  "handle_chat_response lower ctl sid resp now d =
     (case record_response lower sid resp now d of
        Inl e \<Rightarrow> (Inl e, d)
      | Inr (c, None, d1) \<Rightarrow> handle_standard_flow c resp now d1
      | Inr (c, Some i, d1) \<Rightarrow> route lower ctl c i resp now d1)"


section \<open>Properties and their media (model/propertyModel.py, model/propertyMediaModel.py)\<close>

text \<open>
  A UUID is its 128-bit number. Decimal and float values are exact rationals: the model
  does not round, so it follows the arithmetic the code intends. Of a property the model
  keeps the columns the matching service and the theorems below read.
\<close>

type_synonym uuid = nat

record Property =
  prop_id :: uuid
  title :: string
  description :: "string option"
  property_type :: string
  prop_status :: string
  price :: rat
  city :: "string option"
  state :: "string option"
  bedrooms :: "int option"
  bathrooms :: "int option"

record PropertyMedia =
  media_property :: uuid
  media_type :: string
  url :: string
  is_cover :: bool


section \<open>The matching service (controller/propertyRecommendationController.py)\<close>

text \<open>
  The criteria dictionary, read with \<open>get\<close>: a key that is missing or holds \<open>None\<close> is \<open>None\<close>
  here. A number is truthy when it is present and not zero.
\<close>

record user_criteria =
  budget_min :: "rat option"
  budget_max :: "rat option"
  preferred_location :: "string option"
  bedrooms_required :: "int option"
  bathrooms_required :: "int option"
  property_type_preference :: "string option"

definition truthy_rat :: "rat option \<Rightarrow> bool" where
  "truthy_rat v = (case v of None \<Rightarrow> False | Some x \<Rightarrow> x \<noteq> 0)"

definition truthy_int :: "int option \<Rightarrow> bool" where
  "truthy_int v = (case v of None \<Rightarrow> False | Some x \<Rightarrow> x \<noteq> 0)"

text \<open>\<open>str\<close> of an integer, for the f-strings.\<close>

function str_nat :: "nat \<Rightarrow> string" where
  "str_nat n = (if n < 10 then [char_of (48 + n)]
                else str_nat (n div 10) @ [char_of (48 + n mod 10)])"
  by pat_completeness auto
termination
  by (relation "measure id") auto

definition str_int :: "int \<Rightarrow> string" where
  "str_int i = (if i < 0 then ''-'' @ str_nat (nat (- i)) else str_nat (nat i))"

text \<open>
  The running state of \<open>calculate_property_match_score\<close> is \<open>(score, max_score,
  match_reasons)\<close>; each of the five blocks of the function is one step on it.
\<close>

type_synonym tally = "rat \<times> rat \<times> string list"

definition budget_matching :: "Property \<Rightarrow> user_criteria \<Rightarrow> tally \<Rightarrow> tally" where
  "budget_matching p c t =
     (case t of (score, max_score, match_reasons) \<Rightarrow>
        if truthy_rat (budget_min c) \<and> truthy_rat (budget_max c)
        then (if the (budget_min c) \<le> price p \<and> price p \<le> the (budget_max c)
              then (score + 30, max_score + 30, match_reasons @ [''Price within budget''])
              else if price p \<le> the (budget_max c) * (11 / 10)
              then (score + 20, max_score + 30, match_reasons @ [''Price close to budget''])
              else (score, max_score + 30, match_reasons))
        else t)"

definition location_matching :: "(string \<Rightarrow> string) \<Rightarrow> Property \<Rightarrow> user_criteria \<Rightarrow> tally \<Rightarrow> tally" where
  "location_matching lower p c t =
     (case t of (score, max_score, match_reasons) \<Rightarrow>
        if truthy (preferred_location c)
        then (if truthy (city p)
                 \<and> py_in (lower (the (preferred_location c))) (lower (the (city p)))
              then (score + 25, max_score + 25, match_reasons @ [''Location match''])
              else if truthy (state p)
                 \<and> py_in (lower (the (preferred_location c))) (lower (the (state p)))
              then (score + 15, max_score + 25, match_reasons @ [''State match''])
              else (score, max_score + 25, match_reasons))
        else t)"

definition bedrooms_matching :: "Property \<Rightarrow> user_criteria \<Rightarrow> tally \<Rightarrow> tally" where
  "bedrooms_matching p c t =
     (case t of (score, max_score, match_reasons) \<Rightarrow>
        if truthy_int (bedrooms_required c)
        then (if truthy_int (bedrooms p) \<and> the (bedrooms_required c) \<le> the (bedrooms p)
              then (score + 20, max_score + 20,
                    match_reasons @ [str_int (the (bedrooms p)) @ '' bedrooms available''])
              else if truthy_int (bedrooms p)
                 \<and> the (bedrooms p) = the (bedrooms_required c) - 1
              then (score + 10, max_score + 20,
                    match_reasons @ [''Close to bedroom requirement''])
              else (score, max_score + 20, match_reasons))
        else t)"

definition bathrooms_matching :: "Property \<Rightarrow> user_criteria \<Rightarrow> tally \<Rightarrow> tally" where
  "bathrooms_matching p c t =
     (case t of (score, max_score, match_reasons) \<Rightarrow>
        if truthy_int (bathrooms_required c)
        then (if truthy_int (bathrooms p) \<and> the (bathrooms_required c) \<le> the (bathrooms p)
              then (score + 15, max_score + 15,
                    match_reasons @ [str_int (the (bathrooms p)) @ '' bathrooms available''])
              else (score, max_score + 15, match_reasons))
        else t)"

definition property_type_matching :: "(string \<Rightarrow> string) \<Rightarrow> Property \<Rightarrow> user_criteria \<Rightarrow> tally \<Rightarrow> tally" where
  "property_type_matching lower p c t =
     (case t of (score, max_score, match_reasons) \<Rightarrow>
        if truthy (property_type_preference c)
        then (if property_type p \<noteq> []
                 \<and> py_in (lower (the (property_type_preference c)))
                      (lower (property_type p))
              then (score + 10, max_score + 10, match_reasons @ [''Property type match''])
              else (score, max_score + 10, match_reasons))
        else t)"

definition tally_of :: "(string \<Rightarrow> string) \<Rightarrow> Property \<Rightarrow> user_criteria \<Rightarrow> tally" where
  "tally_of lower p c =
     property_type_matching lower p c
       (bathrooms_matching p c
          (bedrooms_matching p c
             (location_matching lower p c
                (budget_matching p c (0, 0, [])))))"

definition calculate_property_match_score ::
  "(string \<Rightarrow> string) \<Rightarrow> Property \<Rightarrow> user_criteria \<Rightarrow> rat \<times> string list" where
  "calculate_property_match_score lower p c =
     (case tally_of lower p c of (score, max_score, match_reasons) \<Rightarrow>
        (if 0 < max_score then (score / max_score) * 100 else 0, match_reasons))"

text \<open>\<open>round(x, 1)\<close>: to one decimal, a tie going to the even last digit.\<close>

definition py_round1 :: "rat \<Rightarrow> rat" where
  "py_round1 x =
     (let y = x * 10; f = \<lfloor>y\<rfloor>; r = y - of_int f
      in of_int (if r < 1 / 2 then f
                 else if 1 / 2 < r then f + 1
                 else if even f then f else f + 1) / 10)"

record property_match =
  pm_property_id :: uuid
  pm_title :: string
  pm_property_type :: string
  pm_price :: rat
  pm_location :: string
  pm_bedrooms :: "int option"
  pm_bathrooms :: "int option"
  match_score :: rat
  match_reasons :: "string list"
  cover_image :: "string option"
  pm_description :: "string option"

definition location_of :: "Property \<Rightarrow> string" where
  "location_of prop =
     (if truthy (city prop) \<and> truthy (state prop)
      then the (city prop) @ '', '' @ the (state prop)
      else if truthy (city prop) then the (city prop)
      else if truthy (state prop) then the (state prop)
      else ''Location TBD'')"

definition description_of :: "Property \<Rightarrow> string option" where
  "description_of prop =
     (if truthy (description prop) \<and> 200 < length (the (description prop))
      then Some (take 200 (the (description prop)) @ ''...'')
      else description prop)"

definition cover_of :: "PropertyMedia list \<Rightarrow> string option" where
  "cover_of media = (case filter is_cover media of [] \<Rightarrow> None | m # _ \<Rightarrow> Some (url m))"

text \<open>The loop over the fetched properties, each with its prefetched media.\<close>

fun collect_matches ::
  "(string \<Rightarrow> string) \<Rightarrow> user_criteria \<Rightarrow> (Property \<times> PropertyMedia list) list \<Rightarrow> property_match list" where
  "collect_matches lower c [] = []"
| "collect_matches lower c ((prop, media) # rest) =
     (case calculate_property_match_score lower prop c of
        (score, reasons) \<Rightarrow>
          if 30 \<le> score
          then \<lparr>pm_property_id = prop_id prop,
                pm_title = title prop,
                pm_property_type = property_type prop,
                pm_price = price prop,
                pm_location = location_of prop,
                pm_bedrooms = bedrooms prop,
                pm_bathrooms = bathrooms prop,
                match_score = py_round1 score,
                match_reasons = reasons,
                cover_image = cover_of media,
                pm_description = description_of prop\<rparr> # collect_matches lower c rest
          else collect_matches lower c rest)"

text \<open>
  \<open>find_matching_properties\<close>. The rows are what the awaited query yields, \<open>None\<close> when the
  object-relational mapper raises; any exception makes the function return the empty
  list. The sort is stable and descending by \<open>match_score\<close>.
\<close>

definition find_matching_properties ::
  "(string \<Rightarrow> string) \<Rightarrow> (Property \<times> PropertyMedia list) list option \<Rightarrow> user_criteria \<Rightarrow> int \<Rightarrow> property_match list"
  where
  "find_matching_properties lower rows c limit =
     (case rows of
        None \<Rightarrow> []
      | Some properties \<Rightarrow>
          py_slice_to
            (sort_key (\<lambda>m. - match_score m) (collect_matches lower c properties)) limit)"


section \<open>Deleting and reading a property (controller/propertyController.py)\<close>

text \<open>
  The property table is keyed by the primary key; a media row refers to its property, and
  deleting a property deletes its media with it (\<open>on_delete=CASCADE\<close>). \<open>uuid.UUID\<close>, which
  turns the identifier string into a UUID or raises \<open>ValueError\<close>, is the parameter \<open>UUID\<close>.
\<close>

record property_store =
  properties :: "uuid \<rightharpoonup> Property"
  property_media :: "PropertyMedia list"

definition media_of :: "property_store \<Rightarrow> uuid \<Rightarrow> PropertyMedia list" where
  "media_of st u = filter (\<lambda>m. media_property m = u) (property_media st)"

definition delete_row :: "uuid \<Rightarrow> property_store \<Rightarrow> property_store" where
  "delete_row u st =
     st\<lparr>properties := (properties st)(u := None),
        property_media := filter (\<lambda>m. media_property m \<noteq> u) (property_media st)\<rparr>"

definition delete_property ::
  "(string \<Rightarrow> uuid option) \<Rightarrow> string \<Rightarrow> property_store \<Rightarrow> (http_error + string) \<times> property_store"
  where
  "delete_property UUID property_id st =
     (case UUID property_id of
        None \<Rightarrow> (Inl (HTTPException 400 ''Invalid property ID format''), st)
      | Some property_uuid \<Rightarrow>
          (case properties st property_uuid of
             None \<Rightarrow> (Inl (HTTPException 404 ''Property not found''), st)
           | Some property_obj \<Rightarrow>
               (Inr ''Property deleted successfully'', delete_row property_uuid st)))"

definition get_property_by_id ::
  "(string \<Rightarrow> uuid option) \<Rightarrow> string \<Rightarrow> property_store
   \<Rightarrow> http_error + Property \<times> PropertyMedia list" where
  "get_property_by_id UUID property_id st =
     (case UUID property_id of
        None \<Rightarrow> Inl (HTTPException 400 ''Invalid property ID format'')
      | Some property_uuid \<Rightarrow>
          (case properties st property_uuid of
             None \<Rightarrow> Inl (HTTPException 404 ''Property not found'')
           | Some property_obj \<Rightarrow> Inr (property_obj, media_of st property_uuid)))"


section \<open>Sample states\<close>

text \<open>
  A conversation as \<open>ChatbotConversation.create(session_id=...)\<close> leaves it, and a message
  row with or without an answer; the theorems below are run on the states built from
  them.
\<close>

definition new_conversation :: "string \<Rightarrow> ChatbotConversation" where
  "new_conversation sid =
     \<lparr>session_id = sid, flow_type = None, guest_email = None, guest_name = None,
      current_step = 0, status = ACTIVE, is_satisfied = None, completed_at = None\<rparr>"

definition message_row :: "string \<Rightarrow> int \<Rightarrow> string \<Rightarrow> string option \<Rightarrow> ChatbotMessage" where
  "message_row sid step text answer =
     \<lparr>conversation = sid, msg_step_number = step, question_text = text,
      user_response = answer, response_time_seconds = None,
      created_at = Some 1000000,
      responded_at = (case answer of None \<Rightarrow> None | Some a \<Rightarrow> Some 3000000)\<rparr>"

definition greeting :: string where
  "greeting = question get_initial_question"

text \<open>
  Four conversations: \<open>fresh\<close> has just been started; \<open>closed\<close> was completed through the
  satisfaction endpoint right after its start; \<open>restarted\<close> went through the rent inquiry,
  whose restart put it back to step 0 without a flow and added a new greeting below the
  answered rows; \<open>searching\<close> is a property search that has asked for the email address.
\<close>

definition sample_db :: database where
  "sample_db =
     \<lparr>conversations =
        [''fresh'' \<mapsto> new_conversation ''fresh'',
         ''closed'' \<mapsto> (new_conversation ''closed'')\<lparr>status := COMPLETED,
                                                      is_satisfied := Some True,
                                                      completed_at := Some 3000000\<rparr>,
         ''restarted'' \<mapsto> (new_conversation ''restarted'')\<lparr>is_satisfied := Some False\<rparr>,
         ''searching'' \<mapsto> (new_conversation ''searching'')\<lparr>flow_type := Some PROPERTY_SEARCH,
                                                            current_step := 8\<rparr>],
      messages =
        [message_row ''fresh'' 0 greeting None,
         message_row ''closed'' 0 greeting (Some ''Yes, I'm satisfied''),
         message_row ''restarted'' 0 greeting (Some ''Ask about a specific property''),
         message_row ''restarted'' 3 ''Sorry, I couldn't find any properties matching your search.''
           (Some ''No, I need more help''),
         message_row ''restarted'' 0 greeting None,
         message_row ''searching'' 7 ''Any specific amenities you need?'' (Some ''Parking''),
         message_row ''searching'' 8
           ''Please provide your email address so our team can contact you with suitable property options:''
           None]\<rparr>"

text \<open>Stand-ins for the three controllers that are parameters.\<close>

definition stand_in_controllers :: controllers where
  "stand_in_controllers =
     \<lparr>rent_inquiry_handle_response = (\<lambda>c i resp now d. handle_satisfaction_question c now d),
      schedule_visit_handle_response = (\<lambda>c i resp now d. handle_satisfaction_question c now d),
      bug_report_handle_response = (\<lambda>c i resp now d. handle_satisfaction_question c now d)\<rparr>"


text \<open>
  Two properties, a studio without bedrooms and a flat with two, their media, and the
  stand-in for \<open>uuid.UUID\<close> on the identifiers used below.
\<close>

definition studio :: Property where
  "studio =
     \<lparr>prop_id = 1, title = ''Studio near the park'', description = None,
      property_type = ''Studio'', prop_status = ''available'', price = 9000,
      city = Some ''Pune'', state = Some ''Maharashtra'', bedrooms = Some 0,
      bathrooms = Some 1\<rparr>"

definition flat :: Property where
  "flat =
     \<lparr>prop_id = 2, title = ''Two-bedroom flat'', description = Some ''Close to the station'',
      property_type = ''Apartment'', prop_status = ''available'', price = 24000,
      city = Some ''Mumbai'', state = Some ''Maharashtra'', bedrooms = Some 2,
      bathrooms = Some 2\<rparr>"

definition picture :: "uuid \<Rightarrow> string \<Rightarrow> bool \<Rightarrow> PropertyMedia" where
  "picture u address cover =
     \<lparr>media_property = u, media_type = ''image'', url = address, is_cover = cover\<rparr>"

definition sample_store :: property_store where
  "sample_store =
     \<lparr>properties = [1 \<mapsto> studio, 2 \<mapsto> flat],
      property_media = [picture 1 ''studio-1.jpg'' True, picture 2 ''flat-1.jpg'' False,
                        picture 1 ''studio-2.jpg'' False, picture 2 ''flat-2.jpg'' True]\<rparr>"

definition sample_UUID :: "string \<Rightarrow> uuid option" where
  "sample_UUID s =
     map_of [(''00000000-0000-0000-0000-000000000001'', 1),
             (''00000000-0000-0000-0000-000000000002'', 2)] s"

definition no_criteria :: user_criteria where
  "no_criteria =
     \<lparr>budget_min = None, budget_max = None, preferred_location = None,
      bedrooms_required = None, bathrooms_required = None,
      property_type_preference = None\<rparr>"
text \<open>
  A third property, a house with one bedroom, the rows a query for Maharashtra yields in
  table order, and criteria that ask for two bedrooms there.
\<close>

definition house :: Property where
  "house =
     \<lparr>prop_id = 3, title = ''House with a garden'', description = None,
      property_type = ''House'', prop_status = ''available'', price = 30000,
      city = Some ''Nagpur'', state = Some ''Maharashtra'', bedrooms = Some 1,
      bathrooms = Some 2\<rparr>"

definition sample_rows :: "(Property \<times> PropertyMedia list) list" where
  "sample_rows = [(studio, media_of sample_store 1), (house, []), (flat, media_of sample_store 2)]"

definition sample_criteria :: user_criteria where
  "sample_criteria =
     no_criteria\<lparr>preferred_location := Some ''Maharashtra'', bedrooms_required := Some 2\<rparr>"

text \<open>
  The conversation \<open>fresh\<close> after three requests: the user chooses to give feedback, picks
  the category ``Customer support'' and rates it two stars out of five.
\<close>

definition poor_rating :: string where
  "poor_rating = stars 2 @ '' Poor (2/5)''"

definition low_rating_run :: database where
  "low_rating_run =
     foldl (\<lambda>d (resp, now).
              snd (handle_chat_response ascii_lower stand_in_controllers ''fresh'' resp now d))
       sample_db
       [(''Give feedback'', 5000000), (''Customer support'', 6000000),
        (poor_rating, 7000000)]"


section \<open>Verified properties\<close>

subsection \<open>The flow engine\<close>

lemma py_index_nonneg: "0 \<le> i \<Longrightarrow> i < int (length xs) \<Longrightarrow> py_index xs i = Inr (xs ! nat i)"
  by (simp add: py_index_def)

text \<open>
  C2. A step index is a position in the flow, counted from 0: the callers pass
  \<open>conversation.current_step\<close>, which starts at 0 and only grows. For every flow name and
  every such index, \<open>get_next_question\<close> returns \<open>None\<close> exactly when the flow name is no key
  of \<open>FLOWS\<close> or the index is at least the number of questions of the flow; otherwise it
  returns the question stored at that index, with \<open>step_number\<close> one more than the index
  and \<open>is_final\<close> the stored override if there is one, and otherwise whether the index is
  the flow's last position.
\<close>

theorem get_next_question_lookup:
  assumes "0 \<le> step"
  shows "(get_next_question flow_name step = Inr None
      \<longleftrightarrow> (flow_name \<notin> fst ` set FLOWS
           \<or> (\<exists>flow. map_of FLOWS flow_name = Some flow \<and> int (length flow) \<le> step)))
   \<and> (\<forall>flow. map_of FLOWS flow_name = Some flow \<and> step < int (length flow) \<longrightarrow>
          get_next_question flow_name step =
            Inr (Some \<lparr>question = fq_question (flow ! nat step),
                       options = fq_options (flow ! nat step),
                       input_type = fq_input_type (flow ! nat step),
                       step_number = step + 1,
                       is_final = (case fq_is_final (flow ! nat step) of
                                     Some b \<Rightarrow> b
                                   | None \<Rightarrow> step = int (length flow) - 1)\<rparr>))"
proof (intro conjI allI impI)
  show "get_next_question flow_name step = Inr None
      \<longleftrightarrow> (flow_name \<notin> fst ` set FLOWS
           \<or> (\<exists>flow. map_of FLOWS flow_name = Some flow \<and> int (length flow) \<le> step))"
  proof (cases "map_of FLOWS flow_name")
    case None
    then have "flow_name \<notin> fst ` set FLOWS"
      by (simp add: map_of_eq_None_iff)
    with None show ?thesis
      by (simp add: get_next_question_def)
  next
    case (Some flow)
    then have "flow_name \<in> fst ` set FLOWS"
      by (metis map_of_eq_None_iff option.distinct(1))
    with Some assms show ?thesis
      by (auto simp: get_next_question_def py_index_nonneg split: sum.splits)
  qed
next
  fix flow
  assume "map_of FLOWS flow_name = Some flow \<and> step < int (length flow)"
  with assms show "get_next_question flow_name step =
            Inr (Some \<lparr>question = fq_question (flow ! nat step),
                       options = fq_options (flow ! nat step),
                       input_type = fq_input_type (flow ! nat step),
                       step_number = step + 1,
                       is_final = (case fq_is_final (flow ! nat step) of
                                     Some b \<Rightarrow> b
                                   | None \<Rightarrow> step = int (length flow) - 1)\<rparr>)"
    by (simp add: get_next_question_def py_index_nonneg)
qed

text \<open>
  C2 at the last property-search question (whose override makes it not final), at the
  only question of the feedback flow (final, as the last position), past the end of that
  flow, and at a name that is no key.
\<close>

theorem get_next_question_lookup_witness:
  "(0::int) \<le> 7
   \<and> get_next_question ''property_search'' 7 =
     Inr (Some \<lparr>question = ''Please provide your email address so our team can contact you with suitable property options:'',
                options = None, input_type = ''email'', step_number = 8, is_final = False\<rparr>)
   \<and> get_next_question ''feedback'' 0 =
     Inr (Some \<lparr>question = ''What aspect would you like to give feedback about?'',
                options = Some [''Property search experience'', ''Website usability'',
                                ''Property listings quality'', ''Customer support'',
                                ''Property visit experience'', ''Overall service''],
                input_type = ''choice'', step_number = 1, is_final = True\<rparr>)
   \<and> get_next_question ''feedback'' 1 = Inr None
   \<and> get_next_question ''general_support'' 0 = Inr None"
  using get_next_question_lookup [of 7 "''property_search''"]
        get_next_question_lookup [of 0 "''feedback''"]
        get_next_question_lookup [of 1 "''feedback''"]
        get_next_question_lookup [of 0 "''general_support''"]
  by (simp add: FLOWS_def property_search_flow_def feedback_flow_def mk_question_def)


subsection \<open>The first response\<close>









subsection \<open>Unrecognized openings\<close>

text \<open>
  C8. A first response that is, after lowercasing, none of the five menu option strings is
  routed to the bug-report flow. The lowercasing is the parameter \<open>lower\<close> (Python's
  \<open>str.lower\<close>), so the statement holds for every response, whatever its characters.
\<close>

theorem unrecognized_response_is_bug_report:
  "lower resp \<notin> {''find a property to rent'', ''ask about a specific property'',
       ''schedule a property visit'', ''report an issue'', ''give feedback''}
   \<Longrightarrow> determine_flow_from_response lower resp = BUG_REPORT"
  by (simp add: determine_flow_from_response_def flow_mapping_def)

text \<open>C8 on a greeting with a typo.\<close>

theorem unrecognized_response_is_bug_report_witness:
  "ascii_lower ''Helo, I want a flat'' \<notin> {''find a property to rent'',
       ''ask about a specific property'', ''schedule a property visit'', ''report an issue'',
       ''give feedback''}
   \<and> determine_flow_from_response ascii_lower ''Helo, I want a flat'' = BUG_REPORT"
proof -
  have h: "ascii_lower ''Helo, I want a flat'' \<notin> {''find a property to rent'',
       ''ask about a specific property'', ''schedule a property visit'', ''report an issue'',
       ''give feedback''}"
    by code_simp
  from unrecognized_response_is_bug_report [of ascii_lower "''Helo, I want a flat''"] h
  show ?thesis by simp
qed

subsection \<open>Failing requests\<close>

text \<open>
  C5. \<open>handle_chat_response\<close> fails with 404 when no conversation has the session id and
  with 400 when the conversation is not active; in both cases the database it leaves is
  the database it found: no message row is created and no conversation changed.
\<close>

theorem chat_response_errors_leave_database:
  "(get_or_none d sid = None \<longrightarrow>
      handle_chat_response lower ctl sid resp now d
        = (Inl (HTTPException 404 ''Conversation not found''), d))
   \<and> (\<forall>c. get_or_none d sid = Some c \<and> status c \<noteq> ACTIVE \<longrightarrow>
      handle_chat_response lower ctl sid resp now d
        = (Inl (HTTPException 400 ''Conversation is not active''), d))"
  by (simp add: handle_chat_response_def record_response_def)

text \<open>C5 on an unknown session and on the completed conversation \<open>closed\<close>.\<close>

theorem chat_response_errors_leave_database_witness:
  "get_or_none sample_db ''nobody'' = None
   \<and> handle_chat_response ascii_lower stand_in_controllers ''nobody'' ''Hello'' 5000000 sample_db
       = (Inl (HTTPException 404 ''Conversation not found''), sample_db)
   \<and> get_or_none sample_db ''closed''
       = Some ((new_conversation ''closed'')\<lparr>status := COMPLETED, is_satisfied := Some True,
                                             completed_at := Some 3000000\<rparr>)
   \<and> status ((new_conversation ''closed'')\<lparr>status := COMPLETED, is_satisfied := Some True,
                                           completed_at := Some 3000000\<rparr>) \<noteq> ACTIVE
   \<and> handle_chat_response ascii_lower stand_in_controllers ''closed'' ''Hello'' 5000000 sample_db
       = (Inl (HTTPException 400 ''Conversation is not active''), sample_db)"
proof -
  have a: "get_or_none sample_db ''nobody'' = None"
    by (simp add: get_or_none_def sample_db_def)
  have b: "get_or_none sample_db ''closed''
       = Some ((new_conversation ''closed'')\<lparr>status := COMPLETED, is_satisfied := Some True,
                                             completed_at := Some 3000000\<rparr>)"
    by (simp add: get_or_none_def sample_db_def)
  have c: "status ((new_conversation ''closed'')\<lparr>status := COMPLETED, is_satisfied := Some True,
                                           completed_at := Some 3000000\<rparr>) \<noteq> ACTIVE"
    by simp
  from chat_response_errors_leave_database
         [of sample_db "''nobody''" ascii_lower stand_in_controllers "''Hello''" 5000000]
       chat_response_errors_leave_database
         [of sample_db "''closed''" ascii_lower stand_in_controllers "''Hello''" 5000000]
       a b c
  show ?thesis by blast
qed
subsection \<open>Deleting a property\<close>

text \<open>
  C7. After \<open>delete_property\<close> has succeeded for an identifier, \<open>get_property_by_id\<close> on
  that identifier fails with 404, and every property row with another key, together with
  its media, is as it was.
\<close>

theorem delete_then_get_not_found:
  "delete_property UUID property_id st = (Inr msg, st') \<Longrightarrow>
     get_property_by_id UUID property_id st' = Inl (HTTPException 404 ''Property not found'')
     \<and> (\<forall>u. UUID property_id \<noteq> Some u \<longrightarrow>
           properties st' u = properties st u \<and> media_of st' u = media_of st u)"
  by (auto simp: delete_property_def get_property_by_id_def delete_row_def media_of_def
           split: option.splits intro: filter_cong)

text \<open>C7 on the sample store: the studio is deleted, the flat and its pictures stay.\<close>

theorem delete_then_get_not_found_witness:
  "delete_property sample_UUID ''00000000-0000-0000-0000-000000000001'' sample_store
     = (Inr ''Property deleted successfully'', delete_row 1 sample_store)
   \<and> get_property_by_id sample_UUID ''00000000-0000-0000-0000-000000000001''
        (delete_row 1 sample_store) = Inl (HTTPException 404 ''Property not found'')
   \<and> sample_UUID ''00000000-0000-0000-0000-000000000001'' \<noteq> Some 2
   \<and> properties (delete_row 1 sample_store) 2 = Some flat
   \<and> media_of (delete_row 1 sample_store) 2
        = [picture 2 ''flat-1.jpg'' False, picture 2 ''flat-2.jpg'' True]"
proof -
  have h: "delete_property sample_UUID ''00000000-0000-0000-0000-000000000001'' sample_store
     = (Inr ''Property deleted successfully'', delete_row 1 sample_store)"
    by (simp add: delete_property_def sample_UUID_def sample_store_def)
  have u: "sample_UUID ''00000000-0000-0000-0000-000000000001'' \<noteq> Some 2"
    by (simp add: sample_UUID_def)
  have before: "properties sample_store 2 = Some flat
      \<and> media_of sample_store 2 = [picture 2 ''flat-1.jpg'' False, picture 2 ''flat-2.jpg'' True]"
    by (simp add: sample_store_def media_of_def picture_def)
  from delete_then_get_not_found [OF h] h u before show ?thesis
    by simp
qed

subsection \<open>Falsy criteria\<close>

lemma budget_zero:
  "budget_min c = Some 0 \<or> budget_max c = Some 0 \<Longrightarrow> budget_matching p c t = t"
  by (auto simp: budget_matching_def truthy_rat_def split: prod.splits)

lemma budget_absent:
  "budget_matching p (c\<lparr>budget_min := None, budget_max := None\<rparr>) t = t"
  by (auto simp: budget_matching_def truthy_rat_def split: prod.splits)

lemma bedrooms_zero:
  "bedrooms_required c = Some 0 \<Longrightarrow> bedrooms_matching p c t = t"
  by (auto simp: bedrooms_matching_def truthy_int_def split: prod.splits)

lemma bedrooms_absent:
  "bedrooms_matching p (c\<lparr>bedrooms_required := None\<rparr>) t = t"
  by (auto simp: bedrooms_matching_def truthy_int_def split: prod.splits)

lemma other_blocks_budget:
  "location_matching lower p (c\<lparr>budget_min := a, budget_max := b\<rparr>) t = location_matching lower p c t"
  "bedrooms_matching p (c\<lparr>budget_min := a, budget_max := b\<rparr>) t = bedrooms_matching p c t"
  "bathrooms_matching p (c\<lparr>budget_min := a, budget_max := b\<rparr>) t = bathrooms_matching p c t"
  "property_type_matching lower p (c\<lparr>budget_min := a, budget_max := b\<rparr>) t
     = property_type_matching lower p c t"
  by (cases t; simp add: location_matching_def bedrooms_matching_def bathrooms_matching_def
        property_type_matching_def)+

lemma other_blocks_bedrooms:
  "budget_matching p (c\<lparr>bedrooms_required := a\<rparr>) t = budget_matching p c t"
  "location_matching lower p (c\<lparr>bedrooms_required := a\<rparr>) t = location_matching lower p c t"
  "bathrooms_matching p (c\<lparr>bedrooms_required := a\<rparr>) t = bathrooms_matching p c t"
  "property_type_matching lower p (c\<lparr>bedrooms_required := a\<rparr>) t = property_type_matching lower p c t"
  by (cases t; simp add: budget_matching_def location_matching_def bathrooms_matching_def
        property_type_matching_def)+

text \<open>
  C10. A criterion whose value is zero counts as absent. With \<open>budget_min\<close> or \<open>budget_max\<close>
  zero the budget block changes neither the score nor the maximum, and the result is the
  one for criteria without a budget; with \<open>bedrooms_required\<close> zero the bedroom block is
  skipped, and the result is the one for criteria without a bedroom requirement.
\<close>

theorem falsy_criterion_is_absent:
  "(budget_min c = Some 0 \<or> budget_max c = Some 0 \<longrightarrow>
      budget_matching p c t = t
      \<and> calculate_property_match_score lower p c
          = calculate_property_match_score lower p (c\<lparr>budget_min := None, budget_max := None\<rparr>))
   \<and> (bedrooms_required c = Some 0 \<longrightarrow>
      bedrooms_matching p c t = t
      \<and> calculate_property_match_score lower p c
          = calculate_property_match_score lower p (c\<lparr>bedrooms_required := None\<rparr>))"
  by (simp add: calculate_property_match_score_def tally_of_def budget_zero budget_absent
        bedrooms_zero bedrooms_absent other_blocks_budget other_blocks_bedrooms)

text \<open>
  C10 on the flat: a budget from 0 to 30000 and a requirement of 0 bedrooms leave the
  score at the 100 that the location alone earns.
\<close>

theorem falsy_criterion_is_absent_witness:
  "budget_min (no_criteria\<lparr>budget_min := Some 0, budget_max := Some 30000,
                           preferred_location := Some ''mumbai''\<rparr>) = Some 0
   \<and> calculate_property_match_score ascii_lower flat
        (no_criteria\<lparr>budget_min := Some 0, budget_max := Some 30000,
                      preferred_location := Some ''mumbai''\<rparr>)
     = calculate_property_match_score ascii_lower flat (no_criteria\<lparr>preferred_location := Some ''mumbai''\<rparr>)
   \<and> bedrooms_required (no_criteria\<lparr>preferred_location := Some ''mumbai'',
                                   bedrooms_required := Some 0\<rparr>) = Some 0
   \<and> calculate_property_match_score ascii_lower flat
        (no_criteria\<lparr>preferred_location := Some ''mumbai'', bedrooms_required := Some 0\<rparr>)
     = calculate_property_match_score ascii_lower flat (no_criteria\<lparr>preferred_location := Some ''mumbai''\<rparr>)"
  using falsy_criterion_is_absent
          [of "no_criteria\<lparr>budget_min := Some 0, budget_max := Some 30000,
                            preferred_location := Some ''mumbai''\<rparr>" flat "(0, 0, [])" ascii_lower]
        falsy_criterion_is_absent
          [of "no_criteria\<lparr>preferred_location := Some ''mumbai'', bedrooms_required := Some 0\<rparr>"
              flat "(0, 0, [])" ascii_lower]
  by (simp add: no_criteria_def)

subsection \<open>The end of the property search\<close>


lemma property_search_length: "length property_search_flow = 8"
  by (simp add: property_search_flow_def)

lemma property_search_lookup: "map_of FLOWS ''property_search'' = Some property_search_flow"
  by (simp add: FLOWS_def)

lemma property_search_entry_not_final:
  assumes "py_index property_search_flow step = Inr q"
  shows "\<not> (case fq_is_final q of Some b \<Rightarrow> b
                              | None \<Rightarrow> step = int (length property_search_flow) - 1)"
proof -
  from assms have "- 8 \<le> step \<and> step < 8"
    by (auto simp: py_index_def property_search_length split: if_splits)
  then have "step \<in> {- 8, - 7, - 6, - 5, - 4, - 3, - 2, - 1, 0, 1, 2, 3, 4, 5, 6, 7}"
    by simp presburger
  with assms show ?thesis
    by (auto simp: py_index_def property_search_flow_def mk_question_def)
qed

lemma property_search_question_not_final:
  "get_next_question ''property_search'' step = Inr (Some q) \<Longrightarrow> \<not> is_final q"
  using property_search_entry_not_final [of step]
  by (auto simp: get_next_question_def property_search_lookup property_search_length
           split: if_splits sum.splits)

lemma property_search_none_iff:
  "get_next_question ''property_search'' step = Inr None \<longleftrightarrow> 8 \<le> step"
  by (auto simp: get_next_question_def property_search_lookup property_search_length
           split: if_splits sum.splits)


lemma next_question_for_property_search:
  "next_question_for (Some PROPERTY_SEARCH) step = get_next_question ''property_search'' step"
  by (simp add: next_question_for_def)

lemma completion_reply:
  "\<exists>r d'. show_completion_message c now d = (Inr r, d')
      \<and> r_message r = ''Property search completed''
      \<and> map_option status (conversations d' (session_id c)) = Some COMPLETED"
  by (simp add: show_completion_message_def Let_def save_conversation_def)

lemma satisfaction_reply:
  "\<exists>r d'. handle_satisfaction_question c now d = (Inr r, d')
      \<and> r_message r = ''Satisfaction question presented''"
  by (simp add: handle_satisfaction_question_def Let_def)

lemma property_search_completes_iff:
  assumes "flow_type c = Some PROPERTY_SEARCH"
  shows "(\<exists>r d'. property_search_handle_response lower c i resp now d = (Inr r, d')
            \<and> r_message r = ''Property search completed''
            \<and> map_option status (conversations d' (session_id c)) = Some COMPLETED)
         \<longleftrightarrow> 8 \<le> current_step c"
proof (cases "get_next_question ''property_search'' (current_step c)")
  case (Inl e)
  then have "\<not> 8 \<le> current_step c"
    using property_search_none_iff [of "current_step c"] by simp
  moreover from Inl assms have "property_search_handle_response lower c i resp now d
      = handle_satisfaction_question c now
          (save_message i ((messages d ! i)\<lparr>user_response := Some resp,
                                             responded_at := Some now\<rparr>) d)"
    by (simp add: property_search_handle_response_def Let_def next_question_for_property_search)
  ultimately show ?thesis
    using satisfaction_reply [of c now "save_message i ((messages d ! i)\<lparr>user_response := Some resp,
                                             responded_at := Some now\<rparr>) d"]
    by auto
next
  case (Inr nq)
  show ?thesis
  proof (cases nq)
    case None
    with Inr have ge: "8 \<le> current_step c"
      using property_search_none_iff [of "current_step c"] by simp
    from None Inr assms have "property_search_handle_response lower c i resp now d
      = show_completion_message c now
          (save_message i ((messages d ! i)\<lparr>user_response := Some resp,
                                             responded_at := Some now\<rparr>) d)"
      by (simp add: property_search_handle_response_def Let_def next_question_for_property_search)
    with ge show ?thesis
      using completion_reply [of c now "save_message i ((messages d ! i)\<lparr>user_response := Some resp,
                                             responded_at := Some now\<rparr>) d"]
      by auto
  next
    case (Some q)
    with Inr have lt: "\<not> 8 \<le> current_step c"
      using property_search_none_iff [of "current_step c"] by simp
    from Some Inr have "\<not> is_final q"
      using property_search_question_not_final by simp
    with Some Inr assms lt show ?thesis
      by (simp add: property_search_handle_response_def Let_def
            next_question_for_property_search email_question_answered_def question_reply_def)
  qed
qed


text \<open>
  C9 (amended). In the property-search flow no question that \<open>get_next_question\<close> returns
  is final, the last one (the email request) included, whose stored \<open>is_final\<close> is \<open>False\<close>;
  so the test that compares the answered question with the email question's text never
  holds. \<open>PropertySearchController\<close> completes the conversation exactly when the engine has
  no question left, that is when the conversation's step is at least 8.
\<close>

theorem property_search_ends_when_questions_run_out:
  "(\<forall>q. get_next_question ''property_search'' step = Inr (Some q) \<longrightarrow>
        \<not> is_final q \<and> \<not> email_question_answered q resp text)
   \<and> (flow_type c = Some PROPERTY_SEARCH \<longrightarrow>
        ((\<exists>r d'. property_search_handle_response lower c i resp now d = (Inr r, d')
            \<and> r_message r = ''Property search completed''
            \<and> map_option status (conversations d' (session_id c)) = Some COMPLETED)
         \<longleftrightarrow> 8 \<le> current_step c)
        \<and> (next_question_for (flow_type c) (current_step c) = Inr None
         \<longleftrightarrow> 8 \<le> current_step c))"
  using property_search_question_not_final [of step]
    property_search_completes_iff [of c lower i resp now d]
    property_search_none_iff [of "current_step c"]
  by (auto simp: email_question_answered_def next_question_for_property_search)

text \<open>
  C9 on the last question of the flow and on the conversation \<open>searching\<close>, which is at
  step 8 and answers the email request.
\<close>

theorem property_search_ends_when_questions_run_out_witness:
  "get_next_question ''property_search'' 7
     = Inr (Some \<lparr>question = ''Please provide your email address so our team can contact you with suitable property options:'',
                  options = None, input_type = ''email'', step_number = 8, is_final = False\<rparr>)
   \<and> flow_type ((new_conversation ''searching'')\<lparr>flow_type := Some PROPERTY_SEARCH,
                                                current_step := 8\<rparr>) = Some PROPERTY_SEARCH
   \<and> 8 \<le> current_step ((new_conversation ''searching'')\<lparr>flow_type := Some PROPERTY_SEARCH,
                                                       current_step := 8\<rparr>)
   \<and> (\<exists>r d'. property_search_handle_response ascii_lower
                ((new_conversation ''searching'')\<lparr>flow_type := Some PROPERTY_SEARCH,
                                                  current_step := 8\<rparr>)
                6 ''tenant@example.com'' 5000000 sample_db = (Inr r, d')
             \<and> r_message r = ''Property search completed''
             \<and> map_option status (conversations d' ''searching'') = Some COMPLETED)"
proof -
  have q: "get_next_question ''property_search'' 7
     = Inr (Some \<lparr>question = ''Please provide your email address so our team can contact you with suitable property options:'',
                  options = None, input_type = ''email'', step_number = 8, is_final = False\<rparr>)"
    by (simp add: get_next_question_def FLOWS_def property_search_flow_def mk_question_def
          py_index_def)
  have f: "flow_type ((new_conversation ''searching'')\<lparr>flow_type := Some PROPERTY_SEARCH,
                                                current_step := 8\<rparr>) = Some PROPERTY_SEARCH"
    and s: "8 \<le> current_step ((new_conversation ''searching'')\<lparr>flow_type := Some PROPERTY_SEARCH,
                                                       current_step := 8\<rparr>)"
    and n: "session_id ((new_conversation ''searching'')\<lparr>flow_type := Some PROPERTY_SEARCH,
                                                       current_step := 8\<rparr>) = ''searching''"
    by (simp_all add: new_conversation_def)
  from property_search_ends_when_questions_run_out
         [of 7 "''tenant@example.com''" "[]"
             "(new_conversation ''searching'')\<lparr>flow_type := Some PROPERTY_SEARCH,
                                               current_step := 8\<rparr>"
             ascii_lower 6 5000000 sample_db] q f s n
  show ?thesis by simp
qed

text \<open>
  C9 as stated fails: on the conversation \<open>searching\<close> the handler completes the search
  although the engine returns no question at step 8, so the comparison with the email
  question's text is not reached, and the lowercased text of the question just answered
  (which ends in a colon) differs from the literal it would be compared with.
\<close>

theorem completion_without_text_match_counterexample:
  "next_question_for (Some PROPERTY_SEARCH) 8 = Inr None
   \<and> ascii_lower (question_text (messages sample_db ! 6)) \<noteq> email_question_literal
   \<and> fst (property_search_handle_response ascii_lower
            ((new_conversation ''searching'')\<lparr>flow_type := Some PROPERTY_SEARCH,
                                              current_step := 8\<rparr>)
            6 ''tenant@example.com'' 5000000 sample_db)
      = Inr \<lparr>r_message = ''Property search completed'',
              r_question = ''Thank you for providing your property preferences and email! We have recorded your requirements and our team will contact you shortly with suitable property options.'',
              r_options = None, r_step_number = 9, r_input_type = [], r_is_final = True,
              r_flow_type = Some PROPERTY_SEARCH\<rparr>"
proof -
  have a: "next_question_for (Some PROPERTY_SEARCH) 8 = Inr None"
    by (simp add: next_question_for_def get_next_question_def FLOWS_def property_search_flow_def)
  have b: "ascii_lower (question_text (messages sample_db ! 6)) \<noteq> email_question_literal"
    by code_simp
  from a have c: "fst (property_search_handle_response ascii_lower
            ((new_conversation ''searching'')\<lparr>flow_type := Some PROPERTY_SEARCH,
                                              current_step := 8\<rparr>)
            6 ''tenant@example.com'' 5000000 sample_db)
      = Inr \<lparr>r_message = ''Property search completed'',
              r_question = ''Thank you for providing your property preferences and email! We have recorded your requirements and our team will contact you shortly with suitable property options.'',
              r_options = None, r_step_number = 9, r_input_type = [], r_is_final = True,
              r_flow_type = Some PROPERTY_SEARCH\<rparr>"
    by (simp add: property_search_handle_response_def show_completion_message_def Let_def
          new_conversation_def)
  from a b c show ?thesis by simp
qed
subsection \<open>The recommended properties\<close>

lemma py_round1_at_least_30: "30 \<le> x \<Longrightarrow> 30 \<le> py_round1 x"
proof -
  assume a: "30 \<le> x"
  define f where "f = \<lfloor>x * 10\<rfloor>"
  from a have "(300::int) \<le> f"
    unfolding f_def by (simp add: le_floor_iff)
  then have "(of_int 300 :: rat) \<le> of_int f"
    by (rule of_int_le_iff [THEN iffD2])
  then have f300: "(300::rat) \<le> of_int f"
    by simp
  then have f301: "(300::rat) \<le> of_int f + 1"
    by linarith
  have "py_round1 x = of_int f / 10 \<or> py_round1 x = (of_int f + 1) / 10"
    unfolding py_round1_def f_def Let_def by simp
  with f300 f301 show ?thesis
    by auto
qed

lemma collect_matches_threshold:
  "m \<in> set (collect_matches lower c ps) \<Longrightarrow> 30 \<le> match_score m"
  by (induction lower c ps rule: collect_matches.induct)
     (auto simp: py_round1_at_least_30 split: prod.splits if_splits)

lemma slice_is_take: "\<exists>k. py_slice_to xs limit = take k xs"
  by (auto simp: py_slice_to_def)

lemma descending_sort:
  "sorted_wrt (\<lambda>a b. match_score b \<le> match_score a) (sort_key (\<lambda>m. - match_score m) xs)"
proof -
  have "sorted (map (\<lambda>m. - match_score m) (sort_key (\<lambda>m. - match_score m) xs))"
    by (rule sorted_sort_key)
  then show ?thesis
    by (simp add: sorted_wrt_map)
qed

text \<open>
  C6. Whatever rows the query yields and whatever the criteria, \<open>find_matching_properties\<close>
  returns at most \<open>limit\<close> entries (for a limit that is a count, that is not negative; the
  default is 10), in non-increasing order of \<open>match_score\<close>, and every entry's \<open>match_score\<close>
  is at least 30. The three facts rest on the threshold test, the rounding (which never
  takes a score of at least 30 below 30), the descending sort and the slice, not on how a
  score is computed; a run that ends in an exception returns the empty list, for which
  they hold as well.
\<close>

theorem find_matching_properties_result:
  "(0 \<le> limit \<longrightarrow> int (length (find_matching_properties lower rows c limit)) \<le> limit)
   \<and> sorted_wrt (\<lambda>a b. match_score b \<le> match_score a)
        (find_matching_properties lower rows c limit)
   \<and> (\<forall>m \<in> set (find_matching_properties lower rows c limit). 30 \<le> match_score m)"
proof (cases rows)
  case None
  then show ?thesis
    by (simp add: find_matching_properties_def)
next
  case (Some ps)
  obtain k where k: "py_slice_to (sort_key (\<lambda>m. - match_score m) (collect_matches lower c ps)) limit
      = take k (sort_key (\<lambda>m. - match_score m) (collect_matches lower c ps))"
    using slice_is_take by blast
  have len: "0 \<le> limit \<longrightarrow> int (length (find_matching_properties lower rows c limit)) \<le> limit"
    using Some by (auto simp: find_matching_properties_def py_slice_to_def)
  have ord: "sorted_wrt (\<lambda>a b. match_score b \<le> match_score a)
               (find_matching_properties lower rows c limit)"
    using Some k descending_sort [of "collect_matches lower c ps"]
    by (simp add: find_matching_properties_def sorted_wrt_take)
  have thr: "\<forall>m \<in> set (find_matching_properties lower rows c limit). 30 \<le> match_score m"
  proof
    fix m
    assume "m \<in> set (find_matching_properties lower rows c limit)"
    with Some k
    have "m \<in> set (take k (sort_key (\<lambda>m. - match_score m) (collect_matches lower c ps)))"
      by (simp add: find_matching_properties_def)
    then have "m \<in> set (collect_matches lower c ps)"
      by (auto dest: in_set_takeD)
    then show "30 \<le> match_score m"
      by (rule collect_matches_threshold)
  qed
  from len ord thr show ?thesis by (intro conjI)
qed

text \<open>
  C6 on three rows and a limit of 2: the studio scores 33.3, the house 55.6 and the flat
  77.8; the flat and the house are returned, in that order.
\<close>

theorem find_matching_properties_result_witness:
  "(0::int) \<le> 2
   \<and> map match_score (find_matching_properties ascii_lower (Some sample_rows) sample_criteria 2)
       = [389 / 5, 278 / 5]
   \<and> map pm_property_id
        (find_matching_properties ascii_lower (Some sample_rows) sample_criteria 2) = [2, 3]
   \<and> int (length (find_matching_properties ascii_lower (Some sample_rows) sample_criteria 2)) \<le> 2
   \<and> sorted_wrt (\<lambda>a b. match_score b \<le> match_score a)
        (find_matching_properties ascii_lower (Some sample_rows) sample_criteria 2)
   \<and> hd (find_matching_properties ascii_lower (Some sample_rows) sample_criteria 2)
        \<in> set (find_matching_properties ascii_lower (Some sample_rows) sample_criteria 2)
   \<and> 30 \<le> match_score
              (hd (find_matching_properties ascii_lower (Some sample_rows) sample_criteria 2))"
proof -
  have scores: "map match_score
        (find_matching_properties ascii_lower (Some sample_rows) sample_criteria 2)
       = [389 / 5, 278 / 5]"
    by code_simp
  have ids: "map pm_property_id
        (find_matching_properties ascii_lower (Some sample_rows) sample_criteria 2) = [2, 3]"
    by code_simp
  from scores
  have "find_matching_properties ascii_lower (Some sample_rows) sample_criteria 2 \<noteq> []"
    by auto
  then have first: "hd (find_matching_properties ascii_lower (Some sample_rows) sample_criteria 2)
        \<in> set (find_matching_properties ascii_lower (Some sample_rows) sample_criteria 2)"
    by simp
  from find_matching_properties_result [of 2 ascii_lower "Some sample_rows" sample_criteria]
    scores ids first
  show ?thesis by simp
qed

subsection \<open>A studio and a requirement of one bedroom\<close>

text \<open>
  C1 does not hold of the code. A property with exactly one bedroom fewer than required is
  to earn 10 of the 20 bedroom points, as the house does against a requirement of two
  bedrooms (score 50). The studio has no bedroom, one fewer than a requirement of one, and
  earns nothing (score 0): the guard \<open>property_obj.bedrooms and ...\<close> of both bedroom tests
  takes the number 0 for a missing value. No budget is involved, and the two scores, 0/20
  and 10/20 of 100, are the same in floating point.
\<close>

theorem studio_one_bedroom_fewer_scores_nothing:
  "bedrooms studio = Some 0
   \<and> the (bedrooms studio) = the (bedrooms_required (no_criteria\<lparr>bedrooms_required := Some 1\<rparr>)) - 1
   \<and> calculate_property_match_score ascii_lower studio
        (no_criteria\<lparr>bedrooms_required := Some 1\<rparr>) = (0, [])
   \<and> the (bedrooms house) = the (bedrooms_required (no_criteria\<lparr>bedrooms_required := Some 2\<rparr>)) - 1
   \<and> calculate_property_match_score ascii_lower house
        (no_criteria\<lparr>bedrooms_required := Some 2\<rparr>) = (50, [''Close to bedroom requirement''])"
proof -
  have a: "bedrooms studio = Some 0"
    by (simp add: studio_def)
  have b: "the (bedrooms studio)
      = the (bedrooms_required (no_criteria\<lparr>bedrooms_required := Some 1\<rparr>)) - 1"
    by (simp add: studio_def)
  have c: "calculate_property_match_score ascii_lower studio
        (no_criteria\<lparr>bedrooms_required := Some 1\<rparr>) = (0, [])"
    by code_simp
  have d: "the (bedrooms house)
      = the (bedrooms_required (no_criteria\<lparr>bedrooms_required := Some 2\<rparr>)) - 1"
    by (simp add: house_def)
  have e: "calculate_property_match_score ascii_lower house
        (no_criteria\<lparr>bedrooms_required := Some 2\<rparr>) = (50, [''Close to bedroom requirement''])"
    by code_simp
  from a b c d e show ?thesis by (intro conjI)
qed

subsection \<open>Feedback with a low rating, and a tag inside a response\<close>

text \<open>
  C4 does not hold of the code, in two ways. After a rating of three or less the question
  asked is ``What would you like us to improve about our ...?'', which none of the
  patterns of \<open>handle_response\<close> matches: the answer goes to the default handler, the
  satisfaction question follows, and \<open>guest_email\<close> keeps the category and the rating only,
  with no \<open>DETAILS\<close> and no \<open>FOLLOWUP\<close> part (the branch of \<open>_handle_detailed_feedback\<close> for
  low ratings is never reached). And \<open>_complete_feedback\<close> removes every occurrence of a
  part's tag, not only the leading one, so a response without \<open>|\<close> that contains its own
  tag is not recovered.
\<close>

theorem low_rating_details_are_dropped:
  "map question_text (filter (\<lambda>m. conversation m = ''fresh'') (messages low_rating_run))
     = [greeting, ''What area would you like to give feedback about?'',
        ''Please rate your experience with customer support:'',
        ''What would you like us to improve about our customer support?'']
   \<and> map_option guest_email (conversations low_rating_run ''fresh'')
     = Some (Some (''CATEGORY:Customer support|RATING:'' @ poor_rating))
   \<and> fst (handle_chat_response ascii_lower stand_in_controllers ''fresh''
             ''Nobody called me back'' 8000000 low_rating_run)
     = Inr \<lparr>r_message = ''Satisfaction question presented'',
             r_question = ''Are you satisfied with the assistance provided?'',
             r_options = Some satisfaction_options, r_step_number = 4,
             r_input_type = ''choice'', r_is_final = True, r_flow_type = Some FEEDBACK\<rparr>
   \<and> map_option guest_email
        (conversations (snd (handle_chat_response ascii_lower stand_in_controllers ''fresh''
                               ''Nobody called me back'' 8000000 low_rating_run)) ''fresh'')
     = Some (Some (''CATEGORY:Customer support|RATING:'' @ poor_rating))
   \<and> fb_details (parse_feedback (''CATEGORY:Website usability|RATING:'' @ stars 5
        @ '' Excellent (5/5)|DETAILS:The label DETAILS: is shown twice|SUGGESTIONS:None|FOLLOWUP:No, thank you''))
     = ''The label  is shown twice''"
proof -
  have a: "map question_text (filter (\<lambda>m. conversation m = ''fresh'') (messages low_rating_run))
     = [greeting, ''What area would you like to give feedback about?'',
        ''Please rate your experience with customer support:'',
        ''What would you like us to improve about our customer support?'']"
    by code_simp
  have b: "map_option guest_email (conversations low_rating_run ''fresh'')
     = Some (Some (''CATEGORY:Customer support|RATING:'' @ poor_rating))"
    by code_simp
  have c: "fst (handle_chat_response ascii_lower stand_in_controllers ''fresh''
             ''Nobody called me back'' 8000000 low_rating_run)
     = Inr \<lparr>r_message = ''Satisfaction question presented'',
             r_question = ''Are you satisfied with the assistance provided?'',
             r_options = Some satisfaction_options, r_step_number = 4,
             r_input_type = ''choice'', r_is_final = True, r_flow_type = Some FEEDBACK\<rparr>"
    by code_simp
  have d: "map_option guest_email
        (conversations (snd (handle_chat_response ascii_lower stand_in_controllers ''fresh''
                               ''Nobody called me back'' 8000000 low_rating_run)) ''fresh'')
     = Some (Some (''CATEGORY:Customer support|RATING:'' @ poor_rating))"
    by code_simp
  have e: "fb_details (parse_feedback (''CATEGORY:Website usability|RATING:'' @ stars 5
        @ '' Excellent (5/5)|DETAILS:The label DETAILS: is shown twice|SUGGESTIONS:None|FOLLOWUP:No, thank you''))
     = ''The label  is shown twice''"
    by code_simp
  from a b c d e show ?thesis by (intro conjI)
qed

end
